theory Spec2Isabelle
  imports Main
begin

section \<open>Python values, dictionaries and exceptions\<close>

text \<open>
  A log record is a Python dict from field names to cell values
  (\<^verbatim>\<open>df.to_dict('records')\<close>, the metadata ChromaDB hands back). The code does two
  things with a cell: it formats it into an f-string (\<^verbatim>\<open>str\<close>) and it calls
  \<^verbatim>\<open>.lower()\<close> on it, which only a \<^verbatim>\<open>str\<close> has. So a cell is either a
  \<^verbatim>\<open>str\<close> or some other value (int, float, NaN, bool), kept as the text \<^verbatim>\<open>str()\<close>
  gives for it.

  Strings are lists of 8-bit characters; \<^verbatim>\<open>str.lower()\<close> is modelled on the ASCII
  letters, the only ones the three keywords are made of.
\<close>

datatype pyval = PStr string | PNonStr string

type_synonym row = "string \<rightharpoonup> pyval"

datatype exn =
    KeyError string
  | AttributeError
  | ValidationError
  | LibraryError string

fun py_str :: "pyval \<Rightarrow> string" where
  "py_str (PStr s) = s"
| "py_str (PNonStr s) = s"

text \<open>\<^verbatim>\<open>d[k]\<close>: raises \<^verbatim>\<open>KeyError\<close> when the key is absent.\<close>

definition getitem :: "row \<Rightarrow> string \<Rightarrow> exn + pyval" where
  "getitem d k = (case d k of None \<Rightarrow> Inl (KeyError k) | Some v \<Rightarrow> Inr v)"

text \<open>A list comprehension whose body may raise: the first exception ends it.\<close>

fun comprehension :: "('a \<Rightarrow> exn + 'b) \<Rightarrow> 'a list \<Rightarrow> exn + 'b list" where
  "comprehension f [] = Inr []"
| "comprehension f (x # xs) =
     (case f x of
        Inl e \<Rightarrow> Inl e
      | Inr y \<Rightarrow> (case comprehension f xs of Inl e \<Rightarrow> Inl e | Inr ys \<Rightarrow> Inr (y # ys)))"

text \<open>
  \<^verbatim>\<open>any(p(x) for x in xs)\<close> over a generator: it stops at the first true element, so
  an element after it is never evaluated, and an exception before it propagates.
\<close>

fun py_any :: "('a \<Rightarrow> exn + bool) \<Rightarrow> 'a list \<Rightarrow> exn + bool" where
  "py_any p [] = Inr False"
| "py_any p (x # xs) =
     (case p x of
        Inl e \<Rightarrow> Inl e
      | Inr b \<Rightarrow> if b then Inr True else py_any p xs)"

text \<open>\<^verbatim>\<open>sep.join(parts)\<close>.\<close>

fun join :: "string \<Rightarrow> string list \<Rightarrow> string" where
  "join sep [] = []"
| "join sep [x] = x"
| "join sep (x # y # ys) = x @ sep @ join sep (y # ys)"

text \<open>
  An ASCII capital (code 65 to 90) has bit 5 clear; setting it adds 32 and gives the small
  letter. Every other character is left as it is.
\<close>

fun lower_char :: "char \<Rightarrow> char" where
  "lower_char (Char b0 b1 b2 b3 b4 b5 b6 b7) =
     (let n = (of_char (Char b0 b1 b2 b3 b4 b5 b6 b7) :: nat)
      in if 65 \<le> n \<and> n \<le> 90 then Char b0 b1 b2 b3 b4 True b6 b7
         else Char b0 b1 b2 b3 b4 b5 b6 b7)"

definition lower :: "string \<Rightarrow> string" where
  "lower s = map lower_char s"

fun startswith :: "string \<Rightarrow> string \<Rightarrow> bool" where
  "startswith [] hay = True"
| "startswith (c # cs) [] = False"
| "startswith (c # cs) (h # hs) = (c = h \<and> startswith cs hs)"

text \<open>\<^verbatim>\<open>needle in hay\<close> on strings: \<open>needle\<close> occurs as a contiguous run of \<open>hay\<close>.\<close>

fun contains :: "string \<Rightarrow> string \<Rightarrow> bool" where
  "contains needle [] = startswith needle []"
| "contains needle (h # hs) = (startswith needle (h # hs) \<or> contains needle hs)"

section \<open>The RAG system object\<close>

text \<open>
  \<^verbatim>\<open>IndustrialRAGSystem\<close> holds three library objects. The sentence-transformer and the
  ChromaDB collection are not code of this repository: their operations are fields of
  the object, any of which may raise. \<open>'e\<close> is the type of an embedding vector, \<open>'c\<close> the
  state of the collection, \<open>'l\<close> the text-generation pipeline \<^verbatim>\<open>self.llm\<close>.

  \<^item> \<open>encode\<close> is \<^verbatim>\<open>self.embedding_model.encode(texts)\<close>;
  \<^item> \<open>coll_add c embeddings documents metadatas ids\<close> is \<^verbatim>\<open>self.collection.add(...)\<close>;
  \<^item> \<open>coll_query c query_embeddings n_results\<close> is the \<^verbatim>\<open>'metadatas'\<close> entry of what
    \<^verbatim>\<open>self.collection.query(...)\<close> returns: \<^verbatim>\<open>None\<close>, or one list of metadata dicts
    for each query embedding.
\<close>

record ('e, 'c, 'l) IndustrialRAGSystem =
  encode :: "string list \<Rightarrow> exn + 'e list"
  collection :: 'c
  coll_add :: "'c \<Rightarrow> 'e list \<Rightarrow> string list \<Rightarrow> row list \<Rightarrow> string list \<Rightarrow> exn + 'c"
  coll_query :: "'c \<Rightarrow> 'e list \<Rightarrow> int \<Rightarrow> exn + row list list option"
  llm :: 'l

section \<open>The insight rule engine\<close>

definition temperature_analysis :: string where
  "temperature_analysis =
     ''Temperature anomaly detected. Recommend immediate inspection of cooling systems and thermal sensors.''"

definition vibration_analysis :: string where
  "vibration_analysis =
     ''Vibration patterns suggest mechanical wear. Schedule bearing inspection and lubrication check.''"

definition pressure_analysis :: string where
  "pressure_analysis =
     ''Pressure variations detected. Check for leaks, blockages, or pump performance issues.''"

definition generic_analysis :: string where
  "generic_analysis =
     ''Multiple equipment events detected. Recommend comprehensive system review.''"

text \<open>\<^verbatim>\<open>f"- {log['timestamp']}: {log['message']}"\<close>\<close>

definition context_line :: "row \<Rightarrow> exn + string" where
  "context_line log =
     (case getitem log ''timestamp'' of
        Inl e \<Rightarrow> Inl e
      | Inr t \<Rightarrow>
          (case getitem log ''message'' of
             Inl e \<Rightarrow> Inl e
           | Inr m \<Rightarrow> Inr (''- '' @ py_str t @ '': '' @ py_str m)))"

definition build_prompt :: "string \<Rightarrow> string \<Rightarrow> string" where
  "build_prompt query context =
     ''Based on the following industrial equipment logs, provide a concise analysis:''
     @ [CHR 0x0A, CHR 0x0A] @ ''Query: '' @ query
     @ [CHR 0x0A, CHR 0x0A] @ ''Relevant Log Entries:''
     @ [CHR 0x0A] @ context
     @ [CHR 0x0A, CHR 0x0A] @ ''Analysis:''"

text \<open>\<^verbatim>\<open>keyword in log['message'].lower()\<close>\<close>

definition mentions :: "string \<Rightarrow> row \<Rightarrow> exn + bool" where
  "mentions keyword log =
     (case getitem log ''message'' of
        Inl e \<Rightarrow> Inl e
      | Inr (PStr s) \<Rightarrow> Inr (contains keyword (lower s))
      | Inr (PNonStr s) \<Rightarrow> Inl AttributeError)"

text \<open>
  The context of the prompt is built from \<^verbatim>\<open>context_logs[:3]\<close>; the prompt is bound
  and never read. The three \<^verbatim>\<open>any\<close> tests run over \<^verbatim>\<open>context_logs\<close> itself.
\<close>

definition generate_insight ::
  "('e, 'c, 'l) IndustrialRAGSystem \<Rightarrow> string \<Rightarrow> row list \<Rightarrow> exn + string" where
  "generate_insight self query context_logs =
     (case comprehension context_line (take 3 context_logs) of
        Inl e \<Rightarrow> Inl e
      | Inr lines \<Rightarrow>
          (let context = join [CHR 0x0A] lines;
               prompt = build_prompt query context
           in (case py_any (mentions ''temperature'') context_logs of
                 Inl e \<Rightarrow> Inl e
               | Inr t \<Rightarrow>
                   if t then Inr temperature_analysis
                   else (case py_any (mentions ''vibration'') context_logs of
                           Inl e \<Rightarrow> Inl e
                         | Inr v \<Rightarrow>
                             if v then Inr vibration_analysis
                             else (case py_any (mentions ''pressure'') context_logs of
                                     Inl e \<Rightarrow> Inl e
                                   | Inr p \<Rightarrow>
                                       if p then Inr pressure_analysis
                                       else Inr generic_analysis)))))"

section \<open>Indexing\<close>

text \<open>\<^verbatim>\<open>str(i)\<close> for \<^verbatim>\<open>i\<close> in \<^verbatim>\<open>range(len(df))\<close>: the decimal digits of a natural number.\<close>

definition digit_char :: "nat \<Rightarrow> char" where
  "digit_char d = ''0123456789'' ! d"

function str_nat :: "nat \<Rightarrow> string" where
  "str_nat n = (if n < 10 then [digit_char n] else str_nat (n div 10) @ [digit_char (n mod 10)])"
  by pat_completeness auto
termination
  by (relation "measure id") auto

declare str_nat.simps [simp del]

text \<open>
  A frame as pandas holds it after \<^verbatim>\<open>pd.read_csv\<close>. \<open>records\<close> are its rows as
  \<^verbatim>\<open>df.to_dict('records')\<close> gives them, each a dict of the frame's columns. The function
  of \<^verbatim>\<open>df.apply(..., axis=1)\<close> receives each row as a Series, and pandas gives a Series
  one dtype for all its cells: \<open>upcast\<close> is what a cell becomes there. In a frame with a
  string column the Series holds objects and every cell is unchanged; in a frame of
  integer and float columns only, the integers become float64 and an int \<^verbatim>\<open>1\<close> reads
  \<^verbatim>\<open>1.0\<close>. The Series has the keys of the record.
\<close>

record dataframe =
  records :: "row list"
  upcast :: "pyval \<Rightarrow> pyval"

definition row_series :: "dataframe \<Rightarrow> row \<Rightarrow> row" where
  "row_series df r = (\<lambda>k. map_option (upcast df) (r k))"

text \<open>
  \<^verbatim>\<open>f"{row['equipment_id']} {row['equipment_type']} {row['severity']} {row['message']}"\<close>
  on a row Series: the four lookups run left to right, the first missing column raises,
  and the cells are formatted as the Series holds them.
\<close>

definition searchable_text :: "row \<Rightarrow> exn + string" where
  "searchable_text r =
     (case getitem r ''equipment_id'' of
        Inl e \<Rightarrow> Inl e
      | Inr eid \<Rightarrow>
          (case getitem r ''equipment_type'' of
             Inl e \<Rightarrow> Inl e
           | Inr ety \<Rightarrow>
               (case getitem r ''severity'' of
                  Inl e \<Rightarrow> Inl e
                | Inr sev \<Rightarrow>
                    (case getitem r ''message'' of
                       Inl e \<Rightarrow> Inl e
                     | Inr msg \<Rightarrow>
                         Inr (py_str eid @ '' '' @ py_str ety @ '' '' @ py_str sev @ '' ''
                              @ py_str msg)))))"

text \<open>\<^verbatim>\<open>df['searchable_text'] = ...\<close>: every row gets the new column.\<close>

definition set_searchable_text :: "row \<Rightarrow> string \<Rightarrow> row" where
  "set_searchable_text r t = r(''searchable_text'' \<mapsto> PStr t)"

text \<open>
  \<open>read_csv\<close> is \<^verbatim>\<open>pd.read_csv\<close> on the file system of the run. The texts are built
  from the row Series; the metadata are the records of the frame with the new column;
  \<^verbatim>\<open>len(df)\<close> is the number of records. The method returns the object with its
  collection updated, or the exception that left it.

  On a frame with no rows the function is called on no record. What pandas does instead
  (it probes the function on a row of NaN, and the outcome depends on the columns) is
  outside the model: the statements about indexing are about frames with at least one
  record.
\<close>

definition load_and_index_logs ::
  "(string \<Rightarrow> exn + dataframe) \<Rightarrow> ('e, 'c, 'l) IndustrialRAGSystem \<Rightarrow> string
   \<Rightarrow> exn + ('e, 'c, 'l) IndustrialRAGSystem" where
  "load_and_index_logs read_csv self csv_path =
     (case read_csv csv_path of
        Inl e \<Rightarrow> Inl e
      | Inr df0 \<Rightarrow>
          (case comprehension (\<lambda>r. searchable_text (row_series df0 r)) (records df0) of
             Inl e \<Rightarrow> Inl e
           | Inr texts \<Rightarrow>
               (let df = map2 set_searchable_text (records df0) texts
                in (case encode self texts of
                      Inl e \<Rightarrow> Inl e
                    | Inr embeddings \<Rightarrow>
                        (case coll_add self (collection self) embeddings texts df
                                (map str_nat [0..<length df]) of
                           Inl e \<Rightarrow> Inl e
                         | Inr c \<Rightarrow> Inr (self\<lparr>collection := c\<rparr>))))))"

section \<open>Retrieval and the query interface\<close>

text \<open>
  \<^verbatim>\<open>results['metadatas'][0] if results['metadatas'] else []\<close>: \<^verbatim>\<open>None\<close> and the empty
  list are both false.
\<close>

definition retrieve_relevant_logs ::
  "('e, 'c, 'l) IndustrialRAGSystem \<Rightarrow> string \<Rightarrow> int \<Rightarrow> exn + row list" where
  "retrieve_relevant_logs self query top_k =
     (case encode self [query] of
        Inl e \<Rightarrow> Inl e
      | Inr query_embedding \<Rightarrow>
          (case coll_query self (collection self) query_embedding top_k of
             Inl e \<Rightarrow> Inl e
           | Inr metadatas \<Rightarrow>
               Inr (case metadatas of
                      None \<Rightarrow> []
                    | Some [] \<Rightarrow> []
                    | Some (first # rest) \<Rightarrow> first)))"

text \<open>The default of the parameter \<^verbatim>\<open>top_k\<close> of \<^verbatim>\<open>retrieve_relevant_logs\<close>.\<close>

definition default_top_k :: int where
  "default_top_k = 5"

text \<open>
  The dict \<^verbatim>\<open>query_system\<close> returns has string and list values; \<open>now\<close> is
  \<^verbatim>\<open>pd.Timestamp.now().isoformat()\<close> at the time of the call.
\<close>

datatype dictval = VStr string | VLogs "row list"

type_synonym result_dict = "string \<rightharpoonup> dictval"

definition no_logs_insight :: string where
  "no_logs_insight = ''No relevant logs found for this query.''"

definition query_system ::
  "('e, 'c, 'l) IndustrialRAGSystem \<Rightarrow> string \<Rightarrow> string \<Rightarrow> exn + result_dict" where
  "query_system self now query =
     (case retrieve_relevant_logs self query default_top_k of
        Inl e \<Rightarrow> Inl e
      | Inr relevant_logs \<Rightarrow>
          if relevant_logs = [] then
            Inr [''query'' \<mapsto> VStr query,
                 ''relevant_logs'' \<mapsto> VLogs [],
                 ''insight'' \<mapsto> VStr no_logs_insight]
          else
            (case generate_insight self query relevant_logs of
               Inl e \<Rightarrow> Inl e
             | Inr insight \<Rightarrow>
                 Inr [''query'' \<mapsto> VStr query,
                      ''relevant_logs'' \<mapsto> VLogs relevant_logs,
                      ''insight'' \<mapsto> VStr insight,
                      ''timestamp'' \<mapsto> VStr now]))"

section \<open>The HTTP handlers\<close>

text \<open>
  The request models after validation. A field the body leaves out takes its default;
  a JSON \<^verbatim>\<open>null\<close> is \<open>None\<close>.
\<close>

record QueryRequest =
  query :: string
  top_k :: "int option"


definition QueryRequest_init :: "string \<Rightarrow> int option option \<Rightarrow> QueryRequest" where
  "QueryRequest_init q k =
     \<lparr>QueryRequest.query = q, top_k = (case k of None \<Rightarrow> Some 5 | Some v \<Rightarrow> v)\<rparr>"


record InsightResponse =
  query :: string
  insight :: string
  relevant_logs :: "row list"
  timestamp :: string

text \<open>
  \<^verbatim>\<open>InsightResponse(**result)\<close>: all four fields are required and typed; a missing or
  ill-typed one raises pydantic's \<^verbatim>\<open>ValidationError\<close>.
\<close>

definition InsightResponse_init :: "result_dict \<Rightarrow> exn + InsightResponse" where
  "InsightResponse_init d =
     (case (d ''query'', d ''insight'', d ''relevant_logs'', d ''timestamp'') of
        (Some (VStr q), Some (VStr i), Some (VLogs ls), Some (VStr t)) \<Rightarrow>
          Inr \<lparr>query = q, insight = i, relevant_logs = ls, timestamp = t\<rparr>
      | _ \<Rightarrow> Inl ValidationError)"

text \<open>
  \<^verbatim>\<open>HTTPException(status_code, detail)\<close>. The detail of a 500 is a fixed prefix followed
  by \<^verbatim>\<open>str(e)\<close>; the exception is kept in place of its text. A handler that returns its
  response model has succeeded: FastAPI serialises the model and answers 200.
\<close>

datatype http_error = HTTPException nat string "exn option"


definition query_logs ::
  "('e, 'c, 'l) IndustrialRAGSystem option \<Rightarrow> string \<Rightarrow> QueryRequest
   \<Rightarrow> http_error + InsightResponse" where
  "query_logs rag_system now request =
     (case rag_system of
        None \<Rightarrow> Inl (HTTPException 503 ''RAG system not initialized'' None)
      | Some rag \<Rightarrow>
          (case query_system rag now (QueryRequest.query request) of
             Inl e \<Rightarrow> Inl (HTTPException 500 ''Query processing failed: '' (Some e))
           | Inr result \<Rightarrow>
               (case InsightResponse_init result of
                  Inl e \<Rightarrow> Inl (HTTPException 500 ''Query processing failed: '' (Some e))
                | Inr response \<Rightarrow> Inr response)))"




section \<open>Predicates of the statements\<close>

text \<open>
  A log record as the pipeline expects it: it has a \<^verbatim>\<open>timestamp\<close>, and its
  \<^verbatim>\<open>message\<close> is a \<^verbatim>\<open>str\<close>.
\<close>

definition well_formed :: "row \<Rightarrow> bool" where
  "well_formed log =
     (log ''timestamp'' \<noteq> None \<and>
      (case log ''message'' of Some (PStr s) \<Rightarrow> True | _ \<Rightarrow> False))"

text \<open>The message of the record contains the keyword, letter case ignored.\<close>

definition has_keyword :: "string \<Rightarrow> row \<Rightarrow> bool" where
  "has_keyword keyword log =
     (case log ''message'' of Some (PStr s) \<Rightarrow> contains keyword (lower s) | _ \<Rightarrow> False)"

definition has_any_keyword :: "row \<Rightarrow> bool" where
  "has_any_keyword log =
     (has_keyword ''temperature'' log \<or> has_keyword ''vibration'' log
      \<or> has_keyword ''pressure'' log)"

text \<open>The columns \<^verbatim>\<open>searchable_text\<close> is built from, in the order of the f-string.\<close>

definition index_fields :: "string list" where
  "index_fields = [''equipment_id'', ''equipment_type'', ''severity'', ''message'']"

definition has_field :: "row \<Rightarrow> string \<Rightarrow> bool" where
  "has_field r k = (r k \<noteq> None)"

definition has_index_fields :: "row \<Rightarrow> bool" where
  "has_index_fields r = list_all (has_field r) index_fields"

text \<open>The fields the specification calls required.\<close>

definition required_fields :: "string list" where
  "required_fields = [''timestamp'', ''equipment_id'', ''severity'', ''message'']"

definition has_required_fields :: "row \<Rightarrow> bool" where
  "has_required_fields r = list_all (has_field r) required_fields"

text \<open>
  The searchable text in the specification's words: the four fields, in that order,
  joined by single spaces.
\<close>

definition field_str :: "row \<Rightarrow> string \<Rightarrow> string" where
  "field_str r k = (case r k of None \<Rightarrow> [] | Some v \<Rightarrow> py_str v)"

definition joined_fields :: "row \<Rightarrow> string" where
  "joined_fields r = join '' '' (map (field_str r) index_fields)"


text \<open>The number a string of decimal digits denotes.\<close>

definition decimal_value :: "string \<Rightarrow> nat" where
  "decimal_value s = foldl (\<lambda>a c. 10 * a + (of_char c - 48)) 0 s"

section \<open>Example data\<close>

text \<open>
  A small system for the examples. The embedding of a text is the text itself; the
  collection is the list of its entries (id, document, metadata); \<open>coll_add\<close> appends;
  \<open>coll_query\<close> answers each query with the metadata of the first \<open>n_results\<close> entries
  whose equipment id and severity both occur in the query.
\<close>

definition matches :: "string \<Rightarrow> row \<Rightarrow> bool" where
  "matches q m =
     (contains (field_str m ''equipment_id'') q \<and> contains (field_str m ''severity'') q)"

definition example_rag ::
  "(string \<times> string \<times> row) list
   \<Rightarrow> (string, (string \<times> string \<times> row) list, unit) IndustrialRAGSystem" where
  "example_rag entries =
     \<lparr>encode = (\<lambda>texts. Inr texts),
      collection = entries,
      coll_add = (\<lambda>c embeddings documents metadatas ids.
                    Inr (c @ zip ids (zip documents metadatas))),
      coll_query = (\<lambda>c query_embeddings n_results.
                      Inr (Some (map (\<lambda>q. take (nat n_results)
                                        (filter (matches q) (map (\<lambda>entry. snd (snd entry)) c)))
                                   query_embeddings))),
      llm = ()\<rparr>"


definition example_row :: "string \<Rightarrow> string \<Rightarrow> string \<Rightarrow> string \<Rightarrow> row" where
  "example_row eid ety sev msg =
     [''timestamp'' \<mapsto> PStr ''2024-05-01T08:00:00'',
      ''equipment_id'' \<mapsto> PStr eid,
      ''equipment_type'' \<mapsto> PStr ety,
      ''severity'' \<mapsto> PStr sev,
      ''message'' \<mapsto> PStr msg]"

definition normal_log :: row where
  "normal_log =
     example_row ''pump_01'' ''pump'' ''INFO'' ''pump_01: Operating within normal parameters''"

definition temperature_log :: row where
  "temperature_log =
     example_row ''pump_01'' ''pump'' ''ERROR''
       ''pump_01: Temperature reading 88.0 C exceeds normal range (40-60 C)''"

definition vibration_log :: row where
  "vibration_log =
     example_row ''motor_02'' ''motor'' ''WARNING''
       ''motor_02: Vibration levels elevated to 9.1Hz, potential bearing wear detected''"

definition bearing_log :: row where
  "bearing_log =
     example_row ''pump_01'' ''pump'' ''WARNING''
       ''pump_01: Vibration levels elevated to 10.2Hz, potential bearing wear detected''"

definition pressure_log :: row where
  "pressure_log =
     example_row ''compressor_03'' ''compressor'' ''WARNING''
       ''compressor_03: System pressure dropped to 17.5 PSI, investigating cause''"

text \<open>
  Rows of frames with no \<^verbatim>\<open>timestamp\<close> column, with no \<^verbatim>\<open>equipment_type\<close> column and
  with no \<^verbatim>\<open>message\<close> column.
\<close>

definition no_timestamp_row :: row where
  "no_timestamp_row =
     [''equipment_id'' \<mapsto> PStr ''pump_01'',
      ''equipment_type'' \<mapsto> PStr ''pump'',
      ''severity'' \<mapsto> PStr ''ERROR'',
      ''message'' \<mapsto> PStr ''pump_01: Temperature reading 91.5 C exceeds normal range'']"

definition no_type_row :: row where
  "no_type_row =
     [''timestamp'' \<mapsto> PStr ''2024-05-01T08:00:00'',
      ''equipment_id'' \<mapsto> PStr ''pump_01'',
      ''severity'' \<mapsto> PStr ''INFO'',
      ''message'' \<mapsto> PStr ''pump_01: Performance metrics nominal'']"

definition no_message_row :: row where
  "no_message_row =
     [''timestamp'' \<mapsto> PStr ''2024-05-01T08:00:00'',
      ''equipment_id'' \<mapsto> PStr ''pump_01'',
      ''equipment_type'' \<mapsto> PStr ''pump'',
      ''severity'' \<mapsto> PStr ''INFO'']"

text \<open>A record whose message cell was empty in the file: pandas reads it as NaN.\<close>

definition nan_message_log :: row where
  "nan_message_log =
     [''timestamp'' \<mapsto> PStr ''2024-05-01T08:00:00'',
      ''equipment_id'' \<mapsto> PStr ''pump_01'',
      ''equipment_type'' \<mapsto> PStr ''pump'',
      ''severity'' \<mapsto> PStr ''INFO'',
      ''message'' \<mapsto> PNonStr ''nan'']"

text \<open>
  A frame of integer and float columns only, and the float64 reading of its cells in a
  row Series.
\<close>

definition numeric_row :: row where
  "numeric_row =
     [''equipment_id'' \<mapsto> PNonStr ''1'',
      ''equipment_type'' \<mapsto> PNonStr ''2'',
      ''severity'' \<mapsto> PNonStr ''3'',
      ''message'' \<mapsto> PNonStr ''4.5'']"

definition numeric_upcast :: "pyval \<Rightarrow> pyval" where
  "numeric_upcast v =
     (if v = PNonStr ''1'' then PNonStr ''1.0''
      else if v = PNonStr ''2'' then PNonStr ''2.0''
      else if v = PNonStr ''3'' then PNonStr ''3.0''
      else v)"

text \<open>A frame with a string column: the row Series holds the cells of the record.\<close>

definition object_frame :: "row list \<Rightarrow> dataframe" where
  "object_frame rows = \<lparr>records = rows, upcast = (\<lambda>v. v)\<rparr>"

definition example_files :: "string \<Rightarrow> exn + dataframe" where
  "example_files path =
     (if path = ''no_timestamp.csv'' then Inr (object_frame [no_timestamp_row])
      else if path = ''no_type.csv'' then Inr (object_frame [no_type_row])
      else if path = ''no_message.csv'' then Inr (object_frame [normal_log, no_message_row])
      else if path = ''numeric.csv'' then
        Inr \<lparr>records = [numeric_row], upcast = numeric_upcast\<rparr>
      else if path = ''logs.csv'' then
        Inr (object_frame [temperature_log, vibration_log, normal_log])
      else Inl (LibraryError ''FileNotFoundError''))"

definition example_entries :: "(string \<times> string \<times> row) list" where
  "example_entries =
     [(''0'', joined_fields temperature_log, temperature_log),
      (''1'', joined_fields bearing_log, bearing_log),
      (''2'', joined_fields normal_log, normal_log),
      (''3'', joined_fields vibration_log, vibration_log)]"

definition logs4 :: "row list" where
  "logs4 = [normal_log, normal_log, normal_log, temperature_log]"

text \<open>The ids and documents of the entries of an example collection after indexing.\<close>

definition ids_and_documents ::
  "exn + (string, (string \<times> string \<times> row) list, unit) IndustrialRAGSystem
   \<Rightarrow> (string \<times> string) list" where
  "ids_and_documents r =
     (case r of Inl e \<Rightarrow> []
      | Inr rag \<Rightarrow> map (\<lambda>entry. (fst entry, fst (snd entry))) (collection rag))"

section \<open>Substring test\<close>

text \<open>\<open>contains\<close> is the substring relation: the needle is a contiguous run of the text.\<close>

lemma startswith_iff: "startswith n h \<longleftrightarrow> (\<exists>ss. h = n @ ss)"
  by (induction n h rule: startswith.induct) auto

lemma contains_iff: "contains n h \<longleftrightarrow> (\<exists>ps ss. h = ps @ n @ ss)"
proof (induction h)
  case Nil
  then show ?case by (cases n) auto
next
  case (Cons x hs)
  have "(\<exists>ps ss. x # hs = ps @ n @ ss) \<longleftrightarrow>
        (\<exists>ss. x # hs = n @ ss) \<or> (\<exists>ps ss. hs = ps @ n @ ss)"
  proof
    assume "\<exists>ps ss. x # hs = ps @ n @ ss"
    then obtain ps ss where eq: "x # hs = ps @ n @ ss" by blast
    show "(\<exists>ss. x # hs = n @ ss) \<or> (\<exists>ps ss. hs = ps @ n @ ss)"
    proof (cases ps)
      case Nil
      with eq show ?thesis by auto
    next
      case (Cons p ps')
      with eq have "hs = ps' @ n @ ss" by simp
      then show ?thesis by blast
    qed
  next
    assume "(\<exists>ss. x # hs = n @ ss) \<or> (\<exists>ps ss. hs = ps @ n @ ss)"
    then show "\<exists>ps ss. x # hs = ps @ n @ ss"
    proof
      assume "\<exists>ss. x # hs = n @ ss"
      then obtain ss where "x # hs = [] @ n @ ss" by auto
      then show ?thesis by blast
    next
      assume "\<exists>ps ss. hs = ps @ n @ ss"
      then obtain ps ss where "x # hs = (x # ps) @ n @ ss" by auto
      then show ?thesis by blast
    qed
  qed
  with Cons show ?case by (simp add: startswith_iff)
qed

section \<open>The rule engine on well-formed records\<close>

lemma comprehension_total:
  "list_all (\<lambda>x. \<exists>y. f x = Inr y) xs \<Longrightarrow> \<exists>ys. comprehension f xs = Inr ys"
  by (induction xs) auto

lemma py_any_total:
  "list_all (\<lambda>x. p x = Inr (q x)) xs \<Longrightarrow> py_any p xs = Inr (list_ex q xs)"
  by (induction xs) auto

lemma mentions_well_formed:
  "well_formed log \<Longrightarrow> mentions keyword log = Inr (has_keyword keyword log)"
  by (auto simp: well_formed_def mentions_def has_keyword_def getitem_def
           split: option.splits pyval.splits)

lemma context_line_well_formed: "well_formed log \<Longrightarrow> \<exists>y. context_line log = Inr y"
  by (auto simp: well_formed_def context_line_def getitem_def split: option.splits)

lemma any_mentions:
  assumes "list_all well_formed logs"
  shows "py_any (mentions keyword) logs = Inr (list_ex (has_keyword keyword) logs)"
proof (rule py_any_total)
  show "list_all (\<lambda>x. mentions keyword x = Inr (has_keyword keyword x)) logs"
    using assms by (simp add: list_all_iff mentions_well_formed)
qed

lemma context_well_formed:
  assumes "list_all well_formed logs"
  shows "\<exists>ys. comprehension context_line (take 3 logs) = Inr ys"
proof (rule comprehension_total)
  have "set (take 3 logs) \<subseteq> set logs" by (rule set_take_subset)
  with assms show "list_all (\<lambda>x. \<exists>y. context_line x = Inr y) (take 3 logs)"
    by (auto simp: list_all_iff context_line_well_formed)
qed

lemma generate_insight_well_formed:
  assumes "list_all well_formed logs"
  shows "generate_insight self q logs =
         Inr (if list_ex (has_keyword ''temperature'') logs then temperature_analysis
              else if list_ex (has_keyword ''vibration'') logs then vibration_analysis
              else if list_ex (has_keyword ''pressure'') logs then pressure_analysis
              else generic_analysis)"
proof -
  from context_well_formed [OF assms] obtain ys
    where "comprehension context_line (take 3 logs) = Inr ys" by blast
  then show ?thesis
    by (simp add: generate_insight_def Let_def any_mentions [OF assms])
qed

lemma analyses_distinct:
  "temperature_analysis \<noteq> generic_analysis"
  "vibration_analysis \<noteq> generic_analysis"
  "pressure_analysis \<noteq> generic_analysis"
  by (simp_all add: temperature_analysis_def vibration_analysis_def pressure_analysis_def
        generic_analysis_def)

text \<open>
  Claim C3, as stated for every logs sequence, fails on records that are not well
  formed. A record indexed from a frame with no \<^verbatim>\<open>timestamp\<close> column has a message
  containing "Temperature", and \<open>generate_insight\<close> raises \<^verbatim>\<open>KeyError\<close> while building
  the prompt. A record whose message cell was empty (NaN) makes the temperature test
  raise \<^verbatim>\<open>AttributeError\<close>, although another record contains "Vibration" and none
  contains "temperature".
\<close>

theorem keyword_priority_counterexample:
  "has_keyword ''temperature'' no_timestamp_row
   \<and> generate_insight (example_rag []) ''pump status'' [no_timestamp_row]
       = Inl (KeyError ''timestamp'')
   \<and> \<not> list_ex (has_keyword ''temperature'') [vibration_log, nan_message_log]
   \<and> list_ex (has_keyword ''vibration'') [vibration_log, nan_message_log]
   \<and> generate_insight (example_rag []) ''pump status'' [vibration_log, nan_message_log]
       = Inl AttributeError"
  by (simp add: no_timestamp_row_def vibration_log_def nan_message_log_def example_row_def
        has_keyword_def lower_def generate_insight_def context_line_def getitem_def
        mentions_def)

text \<open>
  Claim C3, amended. The keywords have a fixed priority on well-formed records (every
  record has a timestamp and a string message), whatever the object and the query:
  if the message of any record of \<open>logs\<close> contains "temperature" (letter case ignored),
  the temperature sentence is returned, whether or not "vibration" or "pressure" occur
  too; otherwise, if any contains "vibration", the vibration sentence is returned,
  whether or not "pressure" occurs; otherwise, if any contains "pressure", the pressure
  sentence is returned. The records examined are all the records of \<open>logs\<close>.
\<close>

theorem keyword_priority:
  assumes "list_all well_formed logs"
  shows "(list_ex (has_keyword ''temperature'') logs \<longrightarrow>
            generate_insight self q logs = Inr temperature_analysis)
       \<and> (\<not> list_ex (has_keyword ''temperature'') logs
            \<and> list_ex (has_keyword ''vibration'') logs \<longrightarrow>
            generate_insight self q logs = Inr vibration_analysis)
       \<and> (\<not> list_ex (has_keyword ''temperature'') logs
            \<and> \<not> list_ex (has_keyword ''vibration'') logs
            \<and> list_ex (has_keyword ''pressure'') logs \<longrightarrow>
            generate_insight self q logs = Inr pressure_analysis)"
  by (simp add: generate_insight_well_formed [OF assms])

text \<open>
  The three cases at concrete records: temperature wins in third position behind
  vibration and pressure; vibration wins behind pressure; pressure wins alone.
\<close>

theorem keyword_priority_witness:
  "list_all well_formed [vibration_log, pressure_log, temperature_log]
   \<and> list_ex (has_keyword ''temperature'') [vibration_log, pressure_log, temperature_log]
   \<and> generate_insight (example_rag []) ''pump status''
        [vibration_log, pressure_log, temperature_log] = Inr temperature_analysis
   \<and> list_all well_formed [pressure_log, vibration_log]
   \<and> \<not> list_ex (has_keyword ''temperature'') [pressure_log, vibration_log]
   \<and> list_ex (has_keyword ''vibration'') [pressure_log, vibration_log]
   \<and> generate_insight (example_rag []) ''pump status'' [pressure_log, vibration_log]
       = Inr vibration_analysis
   \<and> list_all well_formed [normal_log, pressure_log]
   \<and> \<not> list_ex (has_keyword ''temperature'') [normal_log, pressure_log]
   \<and> \<not> list_ex (has_keyword ''vibration'') [normal_log, pressure_log]
   \<and> list_ex (has_keyword ''pressure'') [normal_log, pressure_log]
   \<and> generate_insight (example_rag []) ''pump status'' [normal_log, pressure_log]
       = Inr pressure_analysis"
  using
    keyword_priority [of "[vibration_log, pressure_log, temperature_log]"
      "example_rag []" "''pump status''"]
    keyword_priority [of "[pressure_log, vibration_log]" "example_rag []" "''pump status''"]
    keyword_priority [of "[normal_log, pressure_log]" "example_rag []" "''pump status''"]
  by (simp add: normal_log_def temperature_log_def vibration_log_def pressure_log_def
        example_row_def has_keyword_def lower_def well_formed_def)

text \<open>
  Claim C1, as stated, fails: the fourth record is examined. The first three records
  of \<open>logs4\<close> contain none of the keywords, the fourth contains "Temperature", and the
  temperature sentence is returned, not the generic one.
\<close>

theorem top3_only_counterexample:
  "\<not> list_ex has_any_keyword (take 3 logs4)
   \<and> generate_insight (example_rag []) ''What is wrong with pump_01?'' logs4
       = Inr temperature_analysis
   \<and> temperature_analysis \<noteq> generic_analysis"
  by (simp add: logs4_def normal_log_def temperature_log_def example_row_def
        has_any_keyword_def has_keyword_def lower_def generate_insight_def
        context_line_def getitem_def mentions_def analyses_distinct)

text \<open>
  Claim C1, amended. \<open>generate_insight\<close> examines the message of every record it is
  given (the slice to the first three only feeds the prompt, which is never read):
  on well-formed records, the generic comprehensive-system-review sentence is returned
  exactly when no record of the whole sequence has a message containing "temperature",
  "vibration" or "pressure" (letter case ignored).
\<close>

theorem generate_insight_generic_iff:
  assumes "list_all well_formed logs"
  shows "generate_insight self q logs = Inr generic_analysis \<longleftrightarrow>
         \<not> list_ex has_any_keyword logs"
  by (simp add: generate_insight_well_formed [OF assms] analyses_distinct
        has_any_keyword_def list_ex_iff) blast

theorem generate_insight_generic_iff_witness:
  "list_all well_formed logs4 \<and> list_ex has_any_keyword logs4
   \<and> generate_insight (example_rag []) ''q'' logs4 \<noteq> Inr generic_analysis
   \<and> list_all well_formed [normal_log, normal_log]
   \<and> generate_insight (example_rag []) ''q'' [normal_log, normal_log] = Inr generic_analysis"
  using generate_insight_generic_iff [of logs4 "example_rag []" "''q''"]
    generate_insight_generic_iff [of "[normal_log, normal_log]" "example_rag []" "''q''"]
  by (simp add: logs4_def normal_log_def temperature_log_def example_row_def
        has_any_keyword_def has_keyword_def lower_def well_formed_def)

text \<open>
  Claim C8. \<open>generate_insight\<close> is deterministic: its result is a function of the pair
  (query, logs) alone. It reads nothing of the object it is a method of (the embedding
  model, the collection, the text-generation pipeline) and has no clock or random
  source, so two runs on the same (query, logs), in whatever state of whatever system,
  give the same insight or raise the same exception. This holds for every \<open>logs\<close>, in
  particular for the non-empty ones.
\<close>

theorem generate_insight_deterministic:
  "generate_insight self1 q logs = generate_insight self2 q logs"
  by (simp add: generate_insight_def)

text \<open>
  Claim C10. The result of \<open>generate_insight\<close> does not depend on the query: the prompt
  built from it is bound and never used.
\<close>

theorem generate_insight_ignores_query:
  "generate_insight self q1 logs = generate_insight self q2 logs"
  by (cases "comprehension context_line (take 3 logs)")
     (simp_all add: generate_insight_def Let_def)

section \<open>The query handlers\<close>

lemma query_system_no_logs:
  assumes "retrieve_relevant_logs rag q default_top_k = Inr []"
  shows "query_system rag now q =
         Inr [''query'' \<mapsto> VStr q, ''relevant_logs'' \<mapsto> VLogs [],
              ''insight'' \<mapsto> VStr no_logs_insight]"
  using assms by (simp add: query_system_def)

text \<open>
  Claim C2 (the code departs from it). When retrieval returns no records,
  \<open>query_system\<close> returns the dict with the empty \<^verbatim>\<open>relevant_logs\<close> and the insight
  "No relevant logs found for this query.", but with no \<^verbatim>\<open>timestamp\<close> key. The
  handler of \<^verbatim>\<open>POST /query\<close> builds \<^verbatim>\<open>InsightResponse(**result)\<close> from it, the required
  field \<^verbatim>\<open>timestamp\<close> is missing, the \<^verbatim>\<open>ValidationError\<close> is caught by the handler's
  \<^verbatim>\<open>except Exception\<close>, and the answer is HTTP 500, not 200.
\<close>

theorem query_logs_no_logs_is_500:
  assumes "retrieve_relevant_logs rag (QueryRequest.query request) default_top_k = Inr []"
  shows "query_logs (Some rag) now request =
         Inl (HTTPException 500 ''Query processing failed: '' (Some ValidationError))"
  by (simp add: query_logs_def query_system_no_logs [OF assms] InsightResponse_init_def)

theorem query_logs_no_logs_is_500_witness:
  "retrieve_relevant_logs (example_rag [])
     (QueryRequest.query (QueryRequest_init ''pump temperature issues'' None)) default_top_k = Inr []
   \<and> query_logs (Some (example_rag [])) ''2024-05-01T09:30:00''
        (QueryRequest_init ''pump temperature issues'' None)
      = Inl (HTTPException 500 ''Query processing failed: '' (Some ValidationError))"
  using query_logs_no_logs_is_500 [of "example_rag []" "QueryRequest_init ''pump temperature issues'' None" "''2024-05-01T09:30:00''"]
  by (simp add: retrieve_relevant_logs_def example_rag_def QueryRequest_init_def default_top_k_def)

lemma query_logs_response:
  assumes "query_logs (Some rag) now request = Inr response"
  shows "\<exists>logs i. retrieve_relevant_logs rag (QueryRequest.query request) default_top_k = Inr logs
           \<and> logs \<noteq> [] \<and> generate_insight rag (QueryRequest.query request) logs = Inr i
           \<and> response = \<lparr>query = QueryRequest.query request, insight = i,
                           relevant_logs = logs, timestamp = now\<rparr>"
  using assms
  by (auto simp: query_logs_def query_system_def InsightResponse_init_def
           split: sum.splits if_splits)

text \<open>
  Claim C9. The field \<^verbatim>\<open>top_k\<close> of a \<^verbatim>\<open>POST /query\<close> request has no effect: two
  requests with the same query string get the same answer from the handler, whatever
  their \<^verbatim>\<open>top_k\<close>; and the logs of a response are what retrieval with \<^verbatim>\<open>top_k = 5\<close>,
  the default of \<^verbatim>\<open>retrieve_relevant_logs\<close>, returns for the query.
\<close>

theorem top_k_has_no_effect:
  assumes "QueryRequest.query r1 = QueryRequest.query r2"
  shows "query_logs rag_system now r1 = query_logs rag_system now r2
       \<and> (query_logs (Some rag) now r1 = Inr response \<longrightarrow>
            retrieve_relevant_logs rag (QueryRequest.query r1) 5
              = Inr (relevant_logs response))"
proof
  show "query_logs rag_system now r1 = query_logs rag_system now r2"
    using assms by (cases rag_system) (simp_all add: query_logs_def)
  show "query_logs (Some rag) now r1 = Inr response \<longrightarrow>
          retrieve_relevant_logs rag (QueryRequest.query r1) 5 = Inr (relevant_logs response)"
    using query_logs_response [of rag now r1 response]
    by (auto simp: default_top_k_def)
qed

theorem top_k_has_no_effect_witness:
  "query_logs (Some (example_rag example_entries)) ''2024-05-01T09:30:00''
     \<lparr>QueryRequest.query = ''pump_01 ERROR WARNING INFO'', top_k = Some 1\<rparr>
   = Inr \<lparr>query = ''pump_01 ERROR WARNING INFO'', insight = temperature_analysis,
          relevant_logs = [temperature_log, bearing_log, normal_log],
          timestamp = ''2024-05-01T09:30:00''\<rparr>
   \<and> query_logs (Some (example_rag example_entries)) ''2024-05-01T09:30:00''
       \<lparr>QueryRequest.query = ''pump_01 ERROR WARNING INFO'', top_k = Some 50\<rparr>
     = Inr \<lparr>query = ''pump_01 ERROR WARNING INFO'', insight = temperature_analysis,
            relevant_logs = [temperature_log, bearing_log, normal_log],
            timestamp = ''2024-05-01T09:30:00''\<rparr>
   \<and> retrieve_relevant_logs (example_rag example_entries) ''pump_01 ERROR WARNING INFO'' 5
       = Inr [temperature_log, bearing_log, normal_log]"
proof -
  let ?r1 = "\<lparr>QueryRequest.query = ''pump_01 ERROR WARNING INFO'', top_k = Some 1\<rparr>"
  let ?r2 = "\<lparr>QueryRequest.query = ''pump_01 ERROR WARNING INFO'', top_k = Some 50\<rparr>"
  have same: "QueryRequest.query ?r1 = QueryRequest.query ?r2" by simp
  have run: "query_logs (Some (example_rag example_entries)) ''2024-05-01T09:30:00'' ?r1
     = Inr \<lparr>query = ''pump_01 ERROR WARNING INFO'', insight = temperature_analysis,
          relevant_logs = [temperature_log, bearing_log, normal_log],
          timestamp = ''2024-05-01T09:30:00''\<rparr>"
    by (simp add: query_logs_def query_system_def retrieve_relevant_logs_def
          default_top_k_def example_rag_def example_entries_def InsightResponse_init_def
          matches_def field_str_def
          generate_insight_well_formed well_formed_def has_keyword_def lower_def
          temperature_log_def bearing_log_def normal_log_def vibration_log_def
          example_row_def)
  from top_k_has_no_effect [OF same, of "Some (example_rag example_entries)"
      "''2024-05-01T09:30:00''" "example_rag example_entries"] run
  show ?thesis by simp
qed






section \<open>Indexing\<close>

lemma comprehension_map:
  "list_all (\<lambda>x. f x = Inr (g x)) xs \<Longrightarrow> comprehension f xs = Inr (map g xs)"
  by (induction xs) auto

lemma row_series_None: "row_series df r k = None \<longleftrightarrow> r k = None"
  by (simp add: row_series_def)

lemma has_index_fields_series: "has_index_fields (row_series df r) = has_index_fields r"
  by (simp add: has_index_fields_def index_fields_def has_field_def row_series_None)

lemma row_series_id: "(\<And>v. upcast df v = v) \<Longrightarrow> row_series df r = r"
  by (rule ext) (simp add: row_series_def option.map_ident map_option_idI)

lemma searchable_text_joined:
  "has_index_fields r \<Longrightarrow> searchable_text r = Inr (joined_fields r)"
  by (auto simp: has_index_fields_def index_fields_def has_field_def searchable_text_def
        getitem_def joined_fields_def field_str_def)

lemma searchable_text_missing:
  "\<not> has_index_fields r \<Longrightarrow>
   \<exists>k\<in>set index_fields. r k = None \<and> searchable_text r = Inl (KeyError k)"
  by (auto simp: has_index_fields_def index_fields_def has_field_def searchable_text_def
        getitem_def split: option.splits)

lemma comprehension_searchable_text:
  "list_all has_index_fields rs \<Longrightarrow>
   comprehension (\<lambda>r. searchable_text (row_series df r)) rs
     = Inr (map (\<lambda>r. joined_fields (row_series df r)) rs)"
  by (rule comprehension_map)
     (simp add: list_all_iff searchable_text_joined has_index_fields_series)

lemma comprehension_missing:
  "\<not> list_all has_index_fields rs \<Longrightarrow>
   \<exists>r\<in>set rs. \<exists>k\<in>set index_fields.
     r k = None
     \<and> comprehension (\<lambda>r. searchable_text (row_series df r)) rs = Inl (KeyError k)"
proof (induction rs)
  case Nil
  then show ?case by simp
next
  case (Cons r rs)
  show ?case
  proof (cases "has_index_fields r")
    case True
    with Cons.prems have "\<not> list_all has_index_fields rs" by simp
    from Cons.IH [OF this] obtain r' k where "r' \<in> set rs" "k \<in> set index_fields"
      "r' k = None"
      "comprehension (\<lambda>r. searchable_text (row_series df r)) rs = Inl (KeyError k)"
      by blast
    with True show ?thesis
      by (auto simp: searchable_text_joined has_index_fields_series)
  next
    case False
    then have "\<not> has_index_fields (row_series df r)"
      by (simp add: has_index_fields_series)
    from searchable_text_missing [OF this] obtain k where "k \<in> set index_fields"
      "r k = None" "searchable_text (row_series df r) = Inl (KeyError k)"
      by (auto simp: row_series_None)
    then show ?thesis by auto
  qed
qed

lemma map2_same: "map2 f xs (map g xs) = map (\<lambda>x. f x (g x)) xs"
  by (induction xs) auto

lemma load_and_index_logs_fields:
  assumes "read_csv csv_path = Inr df" and "list_all has_index_fields (records df)"
  shows "load_and_index_logs read_csv self csv_path =
         (case encode self (map (\<lambda>r. joined_fields (row_series df r)) (records df)) of
            Inl e \<Rightarrow> Inl e
          | Inr embeddings \<Rightarrow>
              (case coll_add self (collection self) embeddings
                      (map (\<lambda>r. joined_fields (row_series df r)) (records df))
                      (map (\<lambda>r. set_searchable_text r (joined_fields (row_series df r)))
                         (records df))
                      (map str_nat [0..<length (records df)]) of
                 Inl e \<Rightarrow> Inl e
               | Inr c \<Rightarrow> Inr (self\<lparr>collection := c\<rparr>)))"
  using assms
  by (simp add: load_and_index_logs_def comprehension_searchable_text map2_same Let_def
        split: sum.splits)

lemma digit_value: "d < 10 \<Longrightarrow> (of_char (digit_char d) :: nat) = 48 + d"
proof -
  assume "d < 10"
  then have "d = 0 \<or> d = 1 \<or> d = 2 \<or> d = 3 \<or> d = 4 \<or> d = 5 \<or> d = 6 \<or> d = 7
      \<or> d = 8 \<or> d = 9" by arith
  then show ?thesis by (auto simp: digit_char_def)
qed

lemma decimal_value_snoc:
  "decimal_value (s @ [c]) = 10 * decimal_value s + (of_char c - 48)"
  by (simp add: decimal_value_def)

lemma decimal_value_str_nat: "decimal_value (str_nat n) = n"
proof (induction n rule: str_nat.induct)
  case (1 n)
  show ?case
  proof (cases "n < 10")
    case True
    then show ?thesis
      by (subst str_nat.simps) (simp add: decimal_value_def digit_value)
  next
    case False
    with 1 have "decimal_value (str_nat (n div 10)) = n div 10" by simp
    with False show ?thesis
      by (subst str_nat.simps) (simp add: decimal_value_snoc digit_value)
  qed
qed

lemma str_nat_inj: "str_nat a = str_nat b \<Longrightarrow> a = b"
  by (metis decimal_value_str_nat)

lemma ids_distinct: "distinct (map str_nat [0..<n])"
  by (simp add: distinct_map inj_on_def str_nat_inj)

text \<open>
  Claim C6, as stated for every record sequence, fails twice. In the frame of integer
  and float columns the row Series reads the integers as float64: the document is
  "1.0 2.0 3.0 4.5", not the record's fields "1 2 3 4.5" joined. In the frame with no
  \<^verbatim>\<open>equipment_type\<close> column indexing raises and no entry is built for its one record.
\<close>

theorem indexing_batch_counterexample:
  "ids_and_documents (load_and_index_logs example_files (example_rag []) ''numeric.csv'')
     = [(''0'', ''1.0 2.0 3.0 4.5'')]
   \<and> joined_fields numeric_row = ''1 2 3 4.5''
   \<and> load_and_index_logs example_files (example_rag []) ''no_type.csv''
       = Inl (KeyError ''equipment_type'')
   \<and> ids_and_documents (load_and_index_logs example_files (example_rag []) ''no_type.csv'')
       = []"
  by (simp add: ids_and_documents_def example_files_def object_frame_def
        load_and_index_logs_def row_series_def searchable_text_def getitem_def
        numeric_row_def numeric_upcast_def no_type_row_def example_rag_def
        joined_fields_def field_str_def index_fields_def str_nat.simps digit_char_def)

text \<open>
  Claim C6, amended. For a frame of \<open>n > 0\<close> records that all have the four fields,
  indexing builds, for each record in order, the document made of \<^verbatim>\<open>equipment_id\<close>,
  \<^verbatim>\<open>equipment_type\<close>, \<^verbatim>\<open>severity\<close> and \<^verbatim>\<open>message\<close>, as the row Series holds them,
  joined in that order by single spaces; in a frame whose row Series leave the cells
  as they are (a frame with a string column) these are the fields of the record
  itself. The embeddings are those of the documents, and when the embedding model
  raises nothing the collection is handed the documents with the ids \<open>str_nat 0\<close>, ...,
  \<open>str_nat (n - 1)\<close>: \<open>n\<close> distinct strings, the decimal numerals of \<open>0\<close> to \<open>n - 1\<close>.
  The ids depend on the frame alone, not on what the collection holds, so indexing
  again starts at "0" again.
\<close>

theorem indexing_batch:
  assumes "read_csv csv_path = Inr df"
    and "records df \<noteq> []"
    and "list_all has_index_fields (records df)"
  shows "load_and_index_logs read_csv self csv_path =
           (case encode self (map (\<lambda>r. joined_fields (row_series df r)) (records df)) of
              Inl e \<Rightarrow> Inl e
            | Inr embeddings \<Rightarrow>
                (case coll_add self (collection self) embeddings
                        (map (\<lambda>r. joined_fields (row_series df r)) (records df))
                        (map (\<lambda>r. set_searchable_text r (joined_fields (row_series df r)))
                           (records df))
                        (map str_nat [0..<length (records df)]) of
                   Inl e \<Rightarrow> Inl e
                 | Inr c \<Rightarrow> Inr (self\<lparr>collection := c\<rparr>)))
       \<and> ((\<forall>v. upcast df v = v) \<longrightarrow>
            map (\<lambda>r. joined_fields (row_series df r)) (records df)
              = map joined_fields (records df))
       \<and> length (map str_nat [0..<length (records df)]) = length (records df)
       \<and> map decimal_value (map str_nat [0..<length (records df)])
           = [0..<length (records df)]
       \<and> distinct (map str_nat [0..<length (records df)])"
  using load_and_index_logs_fields [of read_csv csv_path df self] assms
  by (simp add: ids_distinct decimal_value_str_nat map_idI row_series_id)

theorem indexing_batch_witness:
  "example_files ''logs.csv'' = Inr (object_frame [temperature_log, vibration_log, normal_log])
   \<and> list_all has_index_fields [temperature_log, vibration_log, normal_log]
   \<and> ids_and_documents (load_and_index_logs example_files (example_rag []) ''logs.csv'')
       = [(''0'', ''pump_01 pump ERROR pump_01: Temperature reading 88.0 C exceeds normal range (40-60 C)''),
          (''1'', ''motor_02 motor WARNING motor_02: Vibration levels elevated to 9.1Hz, potential bearing wear detected''),
          (''2'', ''pump_01 pump INFO pump_01: Operating within normal parameters'')]"
proof -
  let ?rows = "[temperature_log, vibration_log, normal_log]"
  have f: "example_files ''logs.csv'' = Inr (object_frame ?rows)"
    by (simp add: example_files_def)
  have a: "list_all has_index_fields ?rows"
    by (simp add: has_index_fields_def index_fields_def has_field_def temperature_log_def
          vibration_log_def normal_log_def example_row_def)
  have a': "list_all has_index_fields (records (object_frame ?rows))"
    using a by (simp add: object_frame_def)
  have n: "records (object_frame ?rows) \<noteq> []"
    by (simp add: object_frame_def)
  note e = indexing_batch [of example_files "''logs.csv''" "object_frame ?rows"
      "example_rag []", OF f n a', THEN conjunct1]
  have "ids_and_documents
               (load_and_index_logs example_files (example_rag []) ''logs.csv'')
       = [(''0'', ''pump_01 pump ERROR pump_01: Temperature reading 88.0 C exceeds normal range (40-60 C)''),
          (''1'', ''motor_02 motor WARNING motor_02: Vibration levels elevated to 9.1Hz, potential bearing wear detected''),
          (''2'', ''pump_01 pump INFO pump_01: Operating within normal parameters'')]"
    unfolding e
    by (simp add: ids_and_documents_def example_rag_def object_frame_def row_series_def
          joined_fields_def field_str_def index_fields_def temperature_log_def
          vibration_log_def normal_log_def example_row_def str_nat.simps digit_char_def
          upt_rec)
  with f a show ?thesis by simp
qed

text \<open>
  Indexing the same file a second time, in the example collection (which appends): the
  ids of the second batch start at "0" again and repeat those of the first.
\<close>

lemma reindexing_restarts_ids:
  "map fst (ids_and_documents
     (case load_and_index_logs example_files (example_rag []) ''logs.csv'' of
        Inl e \<Rightarrow> Inl e
      | Inr rag \<Rightarrow> load_and_index_logs example_files rag ''logs.csv''))
   = [''0'', ''1'', ''2'', ''0'', ''1'', ''2'']"
  by (simp add: ids_and_documents_def example_rag_def example_files_def object_frame_def
        load_and_index_logs_def row_series_def searchable_text_def getitem_def
        temperature_log_def vibration_log_def normal_log_def example_row_def
        str_nat.simps digit_char_def upt_rec)

text \<open>
  Claim C4, as stated, fails. A frame with no \<^verbatim>\<open>timestamp\<close> column (a required field
  is missing) is indexed without an error; a frame that has the four required fields
  and no \<^verbatim>\<open>equipment_type\<close> column fails with \<^verbatim>\<open>KeyError\<close>.
\<close>

theorem required_fields_counterexample:
  "\<not> has_required_fields no_timestamp_row
   \<and> \<not> isl (load_and_index_logs example_files (example_rag []) ''no_timestamp.csv'')
   \<and> has_required_fields no_type_row
   \<and> load_and_index_logs example_files (example_rag []) ''no_type.csv''
       = Inl (KeyError ''equipment_type'')"
  by (simp add: has_required_fields_def required_fields_def has_field_def
        no_timestamp_row_def no_type_row_def example_files_def object_frame_def
        load_and_index_logs_def row_series_def searchable_text_def getitem_def
        example_rag_def)

text \<open>
  Claim C4, amended. The fields indexing needs are the four \<^verbatim>\<open>searchable_text\<close> is
  built from: \<^verbatim>\<open>equipment_id\<close>, \<^verbatim>\<open>equipment_type\<close>, \<^verbatim>\<open>severity\<close> and \<^verbatim>\<open>message\<close>.
  When some record of the frame lacks one of them, indexing fails with a \<^verbatim>\<open>KeyError\<close>
  that names one of these four fields, one that a record of the frame lacks;
  \<^verbatim>\<open>timestamp\<close> is not needed. When the frame has a record and every record has the
  four, indexing succeeds whenever the embedding model and the collection raise nothing.
\<close>

theorem indexing_fields:
  assumes "read_csv csv_path = Inr df"
  shows "(\<not> list_all has_index_fields (records df) \<longrightarrow>
            (\<exists>r\<in>set (records df). \<exists>k\<in>set index_fields.
               r k = None
               \<and> load_and_index_logs read_csv self csv_path = Inl (KeyError k)))
       \<and> (records df \<noteq> [] \<and> list_all has_index_fields (records df)
            \<and> encode self (map (\<lambda>r. joined_fields (row_series df r)) (records df))
                = Inr embeddings
            \<and> coll_add self (collection self) embeddings
                  (map (\<lambda>r. joined_fields (row_series df r)) (records df))
                  (map (\<lambda>r. set_searchable_text r (joined_fields (row_series df r)))
                     (records df))
                  (map str_nat [0..<length (records df)]) = Inr c \<longrightarrow>
            load_and_index_logs read_csv self csv_path = Inr (self\<lparr>collection := c\<rparr>))"
proof (intro conjI impI)
  assume "\<not> list_all has_index_fields (records df)"
  from comprehension_missing [OF this, of df] assms
  show "\<exists>r\<in>set (records df). \<exists>k\<in>set index_fields.
          r k = None \<and> load_and_index_logs read_csv self csv_path = Inl (KeyError k)"
    by (auto simp: load_and_index_logs_def)
next
  assume "records df \<noteq> [] \<and> list_all has_index_fields (records df)
            \<and> encode self (map (\<lambda>r. joined_fields (row_series df r)) (records df))
                = Inr embeddings
            \<and> coll_add self (collection self) embeddings
                  (map (\<lambda>r. joined_fields (row_series df r)) (records df))
                  (map (\<lambda>r. set_searchable_text r (joined_fields (row_series df r)))
                     (records df))
                  (map str_nat [0..<length (records df)]) = Inr c"
  then show "load_and_index_logs read_csv self csv_path = Inr (self\<lparr>collection := c\<rparr>)"
    using assms
    by (simp add: load_and_index_logs_fields [of read_csv csv_path df self])
qed

text \<open>
  The error names the missing field: \<^verbatim>\<open>equipment_type\<close> for the frame without that
  column, \<^verbatim>\<open>message\<close> for the frame whose second record has no message; the frame
  without \<^verbatim>\<open>timestamp\<close> is indexed.
\<close>

theorem indexing_fields_witness:
  "example_files ''no_type.csv'' = Inr (object_frame [no_type_row])
   \<and> \<not> list_all has_index_fields [no_type_row]
   \<and> no_type_row ''equipment_type'' = None
   \<and> load_and_index_logs example_files (example_rag []) ''no_type.csv''
       = Inl (KeyError ''equipment_type'')
   \<and> example_files ''no_message.csv'' = Inr (object_frame [normal_log, no_message_row])
   \<and> \<not> list_all has_index_fields [normal_log, no_message_row]
   \<and> no_message_row ''message'' = None
   \<and> load_and_index_logs example_files (example_rag []) ''no_message.csv''
       = Inl (KeyError ''message'')
   \<and> example_files ''no_timestamp.csv'' = Inr (object_frame [no_timestamp_row])
   \<and> list_all has_index_fields [no_timestamp_row]
   \<and> ids_and_documents
         (load_and_index_logs example_files (example_rag []) ''no_timestamp.csv'')
       = [(''0'', ''pump_01 pump ERROR pump_01: Temperature reading 91.5 C exceeds normal range'')]"
proof -
  have f1: "example_files ''no_type.csv'' = Inr (object_frame [no_type_row])"
    by (simp add: example_files_def)
  have f2: "example_files ''no_timestamp.csv'' = Inr (object_frame [no_timestamp_row])"
    by (simp add: example_files_def)
  have f3: "example_files ''no_message.csv'' = Inr (object_frame [normal_log, no_message_row])"
    by (simp add: example_files_def)
  from
    indexing_fields [of example_files "''no_type.csv''" "object_frame [no_type_row]"
      "example_rag []"]
    indexing_fields [of example_files "''no_message.csv''"
      "object_frame [normal_log, no_message_row]" "example_rag []"]
    indexing_fields [of example_files "''no_timestamp.csv''"
      "object_frame [no_timestamp_row]" "example_rag []"
      "map joined_fields [no_timestamp_row]"
      "zip (map str_nat [0..<1])
         (zip (map joined_fields [no_timestamp_row])
            (map (\<lambda>r. set_searchable_text r (joined_fields r)) [no_timestamp_row]))"]
    f1 f2 f3
  show ?thesis
    by (simp add: ids_and_documents_def example_rag_def object_frame_def
          has_index_fields_def index_fields_def has_field_def joined_fields_def
          field_str_def no_type_row_def no_timestamp_row_def no_message_row_def
          normal_log_def example_row_def str_nat.simps digit_char_def
          load_and_index_logs_def row_series_def searchable_text_def getitem_def
          set_searchable_text_def)
qed

end
